theory Spec2Isabelle
  imports Complex_Main
begin

section \<open>Shared Go vocabulary\<close>

text \<open>
  Times and durations are integers (nanoseconds); the code only copies and logs them.
  Pointers to collaborators whose fields are never read are opaque handles.
\<close>

type_synonym Time = int
type_synonym Duration = int
type_synonym handle = nat

text \<open>
  Go error values. \<open>ErrNoAlertmanagerForOrg\<close>, \<open>context_Canceled\<close> and
  \<open>context_DeadlineExceeded\<close> are the sentinel values the source compares against with
  \<open>errors.Is\<close>; \<open>QueryError\<close> is \<open>expr.QueryError{RefID, Err}\<close>, the type the source
  looks for with \<open>errors.As\<close>; \<open>wrapError\<close> is any other error with an \<open>Unwrap\<close> method
  (its own text and its cause); \<open>errorString\<close> is a leaf.
\<close>

datatype error =
    ErrNoAlertmanagerForOrg
  | context_Canceled
  | context_DeadlineExceeded
  | errorString string
  | wrapError string error
  | QueryError string error

text \<open>\<open>errors.Is(err, target)\<close> for a sentinel target: walk the \<open>Unwrap\<close> chain.\<close>

fun errors_Is :: "error \<Rightarrow> error \<Rightarrow> bool" where
  "errors_Is (wrapError s e) target = (wrapError s e = target \<or> errors_Is e target)"
| "errors_Is (QueryError r e) target = (QueryError r e = target \<or> errors_Is e target)"
| "errors_Is err target = (err = target)"

text \<open>
  \<open>errors.As(err, &queryError)\<close> with \<open>queryError\<close> of type \<open>expr.QueryError\<close>: the first
  error of the chain that is a \<open>QueryError\<close>, as its \<open>(RefID, Err)\<close>.
\<close>

fun errors_As_QueryError :: "error \<Rightarrow> (string \<times> error) option" where
  "errors_As_QueryError (QueryError r e) = Some (r, e)"
| "errors_As_QueryError (wrapError s e) = errors_As_QueryError e"
| "errors_As_QueryError err = None"

text \<open>
  The \<open>Error()\<close> method. The texts of the sentinels and of \<open>expr.QueryError\<close> are declared
  outside the files at hand; no statement below depends on them.
\<close>

fun Error_text :: "error \<Rightarrow> string" where
  "Error_text ErrNoAlertmanagerForOrg = ''Alertmanager does not exist for this organization''"
| "Error_text context_Canceled = ''context canceled''"
| "Error_text context_DeadlineExceeded = ''context deadline exceeded''"
| "Error_text (errorString s) = s"
| "Error_text (wrapError s e) = s"
| "Error_text (QueryError r e) = ''failed to execute query '' @ r @ '': '' @ Error_text e"

text \<open>Log output: level, message and the key/value context of the call.\<close>

datatype log_level = LvlDebug | LvlInfo | LvlError

datatype log_value =
    VInt int
  | VStr string
  | VBool bool
  | VErr error
  | VLabels "string \<rightharpoonup> string"

type_synonym log_entry = "log_level \<times> string \<times> (string \<times> log_value) list"

text \<open>What a Go statement that may block or panic does.\<close>

datatype 'a outcome = Returns 'a | Blocks | Panics


section \<open>Package alerting: the custom evaluator engine\<close>

subsection \<open>Contexts and channels\<close>

text \<open>
  A \<open>context.Context\<close> is the chain of its derivations from \<open>context.Background()\<close>.
\<close>

datatype Context =
    Background
  | WithTimeout Context Duration
  | ContextWithSpan Context string








subsection \<open>Rule, EvalContext, Job\<close>

text \<open>
  Modelled from the spec: the type \<open>Rule\<close> is declared outside the files at hand. The
  fields are those the engine reads or writes; \<open>Frequency\<close> is an \<open>int64\<close>, as the
  conversion \<open>float64(offset)\<close> and the \<open>int64\<close> field \<open>Job.Offset\<close> require.
\<close>

record Rule =
  Rule_ID :: int
  Rule_DashboardID :: int
  Rule_Name :: string
  Rule_Frequency :: int
  Rule_State :: string
  Rule_LogzIoHeaders :: "handle option"
  Rule_DataSourceUrl :: string
  Rule_CustomDataSources :: "handle list"

text \<open>
  Modelled from the spec: the type \<open>EvalContext\<close> is declared outside the files at hand. It
  carries the rule, the evaluation instant and the cancellation context, and records whether
  a result is firing, whether no data was found, and the terminal error of the evaluation.
\<close>

record EvalContext =
  EvalContext_Ctx :: Context
  EvalContext_Rule :: Rule
  EvalContext_EvalTime :: Time
  EvalContext_RequestValidator :: handle
  EvalContext_Firing :: bool
  EvalContext_NoDataFound :: bool
  EvalContext_Error :: "error option"


text \<open>
  \<open>Job\<close> as declared in the source. \<open>Job_runningLock\<close> is the state of the mutex: held or
  not. \<open>Job_Rule\<close> and \<open>EvalContext_Rule\<close> point to the same \<open>Rule\<close> object in the source;
  the model copies the rule back into the job where the source writes through the pointer.
\<close>

record Job =
  Job_Offset :: int
  Job_OffsetWait :: bool
  Job_Delay :: bool
  Job_running :: bool
  Job_Rule :: "Rule option"
  Job_runningLock :: bool
  Job_EvalTime :: Time
  Job_Result :: "EvalContext option"


subsection \<open>The engine and what it can observe\<close>

text \<open>
  The order of the accesses to the running flag and of the calls to the two handlers.
\<close>

datatype event =
    MutexLock
  | MutexUnlock
  | RunningRead bool
  | RunningWrite bool
  | EvalCalled EvalContext
  | HandleCalled EvalContext

text \<open>What a span of the tracer receives.\<close>

datatype span_event =
    StartSpan string
  | SetTag string log_value
  | LogFields error string
  | SpanFinish

record engine_world =
  world_log :: "log_entry list"
  world_span :: "span_event list"
  world_events :: "event list"

text \<open>
  \<open>AlertEvaluatorEngine\<close>: the interfaces \<open>evalHandler\<close>, \<open>ruleReader\<close> and
  \<open>resultHandler\<close> are their one method each. \<open>Eval\<close> and \<open>handle\<close> take a pointer to the
  context and may write to it, so they return it. \<open>GetNewState\<close> and \<open>GetDurationMs\<close> are
  methods of \<open>EvalContext\<close> declared outside the files at hand, and \<open>NewRuleFromDBAlert\<close> is
  a function declared there: the three are parameters of the engine.
\<close>

record Alert =
  Alert_Id :: int





definition observe :: "event list \<Rightarrow> engine_world \<Rightarrow> engine_world" where
  "observe evs w = w\<lparr>world_events := world_events w @ evs\<rparr>"

subsection \<open>Job.GetRunning and Job.SetRunning\<close>

text \<open>Both take the job's mutex, access the flag and release the mutex.\<close>

definition GetRunning :: "Job \<Rightarrow> engine_world \<Rightarrow> bool outcome \<times> engine_world" where
  "GetRunning j w =
     (if Job_runningLock j then (Blocks, w)
      else (Returns (Job_running j),
            observe [MutexLock, RunningRead (Job_running j), MutexUnlock] w))"


subsection \<open>processJob\<close>


subsection \<open>handleRule and the two command handlers\<close>







section \<open>Package api: the evaluate and process endpoints\<close>

subsection \<open>Data\<close>

type_synonym Labels = "string \<rightharpoonup> string"
type_synonym URL = string
type_synonym AlertQuery = string

text \<open>A \<open>float64\<close> is its 64 bits; the code copies the values and never computes with them.\<close>

type_synonym float64 = int

text \<open>
  Modelled from the spec: \<open>eval.State\<close> and its \<open>String\<close> method are declared outside the
  files at hand; the spec names the categorical states Normal, Alerting, NoData and Error.
\<close>

datatype eval_State = Normal | Alerting | NoData | Error

fun State_String :: "eval_State \<Rightarrow> string" where
  "State_String Normal = ''Normal''"
| "State_String Alerting = ''Alerting''"
| "State_String NoData = ''NoData''"
| "State_String Error = ''Error''"

text \<open>
  \<open>eval.NumberValueCapture\<close> and \<open>apimodels.ApiNumberValueCapture\<close>, with the three fields
  the converters copy; \<open>Value\<close> is a pointer.
\<close>

record NumberValueCapture =
  NumberValueCapture_Var :: string
  NumberValueCapture_Labels :: Labels
  NumberValueCapture_Value :: "float64 option"

record ApiNumberValueCapture =
  ApiNumberValueCapture_Var :: string
  ApiNumberValueCapture_Labels :: Labels
  ApiNumberValueCapture_Value :: "float64 option"

text \<open>
  \<open>eval.Result\<close>, with the fields the converters read and write. A Go map that may be
  \<open>nil\<close> is an optional map where the code tests it, \<open>None\<close> for \<open>nil\<close>.
\<close>

record Result =
  Result_Instance :: Labels
  Result_State :: eval_State
  Result_Error :: "error option"
  Result_EvaluatedAt :: Time
  Result_EvaluationDuration :: Duration
  Result_EvaluationString :: string
  Result_Values :: "(string \<rightharpoonup> NumberValueCapture) option"

record ApiEvalError =
  ApiEvalError_Type :: string
  ApiEvalError_Message :: string
  ApiEvalError_Metadata :: "string \<rightharpoonup> string"

text \<open>
  \<open>apimodels.ApiEvalResult\<close>. Its \<open>Values\<close> hold \<open>eval.NumberValueCapture\<close> in
  \<open>logzio_alerting.go\<close> and \<open>ApiNumberValueCapture\<close> in the later copy of the file, so the
  type of the captured values is a parameter.
\<close>

record 'c ApiEvalResult =
  ApiEvalResult_Instance :: Labels
  ApiEvalResult_State :: eval_State
  ApiEvalResult_StateName :: string
  ApiEvalResult_EvaluatedAt :: Time
  ApiEvalResult_EvaluationDuration :: Duration
  ApiEvalResult_EvaluationString :: string
  ApiEvalResult_Values :: "(string \<rightharpoonup> 'c) option"
  ApiEvalResult_Error :: "ApiEvalError option"

record ApiAlertRule =
  ApiAlertRule_ID :: int
  ApiAlertRule_OrgID :: int
  ApiAlertRule_Title :: string
  ApiAlertRule_Condition :: string
  ApiAlertRule_Data :: "AlertQuery list"
  ApiAlertRule_Updated :: Time
  ApiAlertRule_IntervalSeconds :: int
  ApiAlertRule_Version :: int
  ApiAlertRule_UID :: string
  ApiAlertRule_NamespaceUID :: string
  ApiAlertRule_DashboardUID :: "string option"
  ApiAlertRule_PanelID :: "int option"
  ApiAlertRule_RuleGroup :: string
  ApiAlertRule_NoDataState :: string
  ApiAlertRule_ExecErrState :: string
  ApiAlertRule_For :: Duration
  ApiAlertRule_Annotations :: Labels
  ApiAlertRule_Labels :: Labels

record AlertRule =
  AlertRule_ID :: int
  AlertRule_OrgID :: int
  AlertRule_Title :: string
  AlertRule_Condition :: string
  AlertRule_Data :: "AlertQuery list"
  AlertRule_Updated :: Time
  AlertRule_IntervalSeconds :: int
  AlertRule_Version :: int
  AlertRule_UID :: string
  AlertRule_NamespaceUID :: string
  AlertRule_DashboardUID :: "string option"
  AlertRule_PanelID :: "int option"
  AlertRule_RuleGroup :: string
  AlertRule_NoDataState :: string
  AlertRule_ExecErrState :: string
  AlertRule_For :: Duration
  AlertRule_Annotations :: Labels
  AlertRule_Labels :: Labels

record Condition =
  Condition_Condition :: string
  Condition_OrgID :: int
  Condition_Data :: "AlertQuery list"

text \<open>
  Modelled from the spec: \<open>state.State\<close> is declared outside the files at hand; it is the
  spec's AlertInstanceState, with the fields \<open>saveAlertStates\<close> reads.
\<close>

record state_State =
  State_OrgID :: int
  State_AlertRuleUID :: string
  State_Labels :: Labels
  State_State :: eval_State
  State_LastEvaluationTime :: Time
  State_StartsAt :: Time
  State_EndsAt :: Time

record SaveAlertInstanceCommand =
  Save_RuleOrgID :: int
  Save_RuleUID :: string
  Save_Labels :: Labels
  Save_State :: string
  Save_LastEvalTime :: Time
  Save_CurrentStateSince :: Time
  Save_CurrentStateEnd :: Time

text \<open>
  Modelled from the spec: \<open>PostableAlert\<close> is declared outside the files at hand; the spec
  gives it labels, annotations, start and end time and a generator URL.
\<close>

record PostableAlert =
  PostableAlert_Labels :: Labels
  PostableAlert_Annotations :: Labels
  PostableAlert_StartsAt :: Time
  PostableAlert_EndsAt :: Time
  PostableAlert_GeneratorURL :: string

type_synonym PostableAlerts = "PostableAlert list"


record 'c AlertProcessRequest =
  ProcessRequest_AlertRule :: ApiAlertRule
  ProcessRequest_EvaluationResults :: "'c ApiEvalResult list"

record Cfg =
  AppURL :: string

text \<open>\<open>response.Error(status, message, err)\<close> and \<open>response.JSONStreaming(status, body)\<close>.\<close>

datatype 'b Response =
    response_Error nat string error
  | response_JSONStreaming nat 'b

definition http_StatusOK :: nat where "http_StatusOK = 200"
definition http_StatusBadRequest :: nat where "http_StatusBadRequest = 400"
definition http_StatusInternalServerError :: nat where "http_StatusInternalServerError = 500"

definition EvaluationErrorRefIdKey :: string where "EvaluationErrorRefIdKey = ''REF_ID''"
definition QueryErrorType :: string where "QueryErrorType = ''QUERY_ERROR''"
definition OtherErrorType :: string where "OtherErrorType = ''OTHER''"

subsection \<open>The service and its collaborators\<close>

text \<open>
  The calls the service makes to its collaborators, in the order it makes them.
\<close>

datatype call =
    ConditionEvalCall Condition Time
  | ProcessEvalResultsCall AlertRule "Result list"
  | SaveAlertInstanceCall SaveAlertInstanceCommand
  | FromAlertStateToPostableAlertsCall "state_State list" "URL option"
  | AlertmanagerForCall int
  | PutAlertsCall PostableAlerts

text \<open>
  The world of the service: its log, the calls made so far, the number of readings of the
  clock so far, and the state \<open>'x\<close> of the collaborators (the rows of the Instance Store,
  the cache of the State Manager, the alertmanagers).
\<close>

record 'x api_world =
  api_log :: "log_entry list"
  api_calls :: "call list"
  api_clock :: nat
  api_ext :: 'x

type_synonym 'x Alertmanager = "PostableAlerts \<Rightarrow> 'x \<Rightarrow> error option \<times> 'x"

text \<open>
  \<open>LogzioAlertingService\<close>. A collaborator is the method the service calls on it:
  \<open>Evaluator\<close> is \<open>ConditionEval\<close>, \<open>StateManager\<close> is \<open>ProcessEvalResults\<close>,
  \<open>MultiOrgAlertmanager\<close> is \<open>AlertmanagerFor\<close>, which gives the error of the lookup or an
  alertmanager (its \<open>PutAlerts\<close>), \<open>InstanceStore\<close> is \<open>SaveAlertInstance\<close>, and \<open>Clock\<close>
  gives the n-th reading of \<open>Now()\<close>.
\<close>

record 'x LogzioAlertingService =
  AlertingProxy :: handle
  Cfg :: Cfg
  AppUrl :: "URL option"
  Evaluator :: "Condition \<Rightarrow> Time \<Rightarrow> handle \<Rightarrow> 'x \<Rightarrow> (error + Result list) \<times> 'x"
  Clock :: "nat \<Rightarrow> Time"
  ExpressionService :: handle
  StateManager :: "AlertRule \<Rightarrow> Result list \<Rightarrow> 'x \<Rightarrow> state_State list \<times> 'x"
  MultiOrgAlertmanager :: "int \<Rightarrow> 'x \<Rightarrow> error + 'x Alertmanager"
  InstanceStore :: "SaveAlertInstanceCommand \<Rightarrow> 'x \<Rightarrow> error option \<times> 'x"
  Log :: handle

definition api_log_to ::
  "log_level \<Rightarrow> string \<Rightarrow> (string \<times> log_value) list \<Rightarrow> 'x api_world \<Rightarrow> 'x api_world" where
  "api_log_to lvl msg ctx w = w\<lparr>api_log := api_log w @ [(lvl, msg, ctx)]\<rparr>"

definition called :: "call \<Rightarrow> 'x api_world \<Rightarrow> 'x api_world" where
  "called c w = w\<lparr>api_calls := api_calls w @ [c]\<rparr>"


subsection \<open>Converters\<close>

text \<open>\<open>evaluationResultsToApi\<close> and \<open>apiToEvaluationResult\<close> of \<open>logzio_alerting.go\<close>.\<close>

definition evaluationResultsToApi :: "Result \<Rightarrow> NumberValueCapture ApiEvalResult" where
  "evaluationResultsToApi evalResult =
     (let apiEvalResult =
            \<lparr>ApiEvalResult_Instance = Result_Instance evalResult,
             ApiEvalResult_State = Result_State evalResult,
             ApiEvalResult_StateName = State_String (Result_State evalResult),
             ApiEvalResult_EvaluatedAt = Result_EvaluatedAt evalResult,
             ApiEvalResult_EvaluationDuration = Result_EvaluationDuration evalResult,
             ApiEvalResult_EvaluationString = Result_EvaluationString evalResult,
             ApiEvalResult_Values = Result_Values evalResult,
             ApiEvalResult_Error = None\<rparr>
      in case Result_Error evalResult of
        None \<Rightarrow> apiEvalResult
      | Some err \<Rightarrow>
         (let errorMetadata = Map.empty in
          case errors_As_QueryError err of
            Some (RefID, Err) \<Rightarrow>
              apiEvalResult\<lparr>ApiEvalResult_Error :=
                Some \<lparr>ApiEvalError_Type = QueryErrorType,
                      ApiEvalError_Message = Error_text Err,
                      ApiEvalError_Metadata = errorMetadata(EvaluationErrorRefIdKey \<mapsto> RefID)\<rparr>\<rparr>
          | None \<Rightarrow>
              apiEvalResult\<lparr>ApiEvalResult_Error :=
                Some \<lparr>ApiEvalError_Type = OtherErrorType,
                      ApiEvalError_Message = Error_text err,
                      ApiEvalError_Metadata = errorMetadata\<rparr>\<rparr>))"

definition apiToEvaluationResult :: "NumberValueCapture ApiEvalResult \<Rightarrow> Result" where
  "apiToEvaluationResult apiEvalResult =
     \<lparr>Result_Instance = ApiEvalResult_Instance apiEvalResult,
      Result_State = ApiEvalResult_State apiEvalResult,
      Result_Error = None,
      Result_EvaluatedAt = ApiEvalResult_EvaluatedAt apiEvalResult,
      Result_EvaluationDuration = ApiEvalResult_EvaluationDuration apiEvalResult,
      Result_EvaluationString = [],
      Result_Values = ApiEvalResult_Values apiEvalResult\<rparr>"

text \<open>
  The later copy of the file converts the captured values one by one. The loop over a map
  writes \<open>f v\<close> under every key \<open>k\<close> that holds \<open>v\<close>; the keys are distinct, so the
  order of the iteration does not show.
\<close>

definition apiToNumberValueCapture :: "ApiNumberValueCapture \<Rightarrow> NumberValueCapture" where
  "apiToNumberValueCapture api =
     \<lparr>NumberValueCapture_Var = ApiNumberValueCapture_Var api,
      NumberValueCapture_Labels = ApiNumberValueCapture_Labels api,
      NumberValueCapture_Value = ApiNumberValueCapture_Value api\<rparr>"

definition valueNumberCaptureToApi :: "NumberValueCapture \<Rightarrow> ApiNumberValueCapture" where
  "valueNumberCaptureToApi numberValueCapture =
     \<lparr>ApiNumberValueCapture_Var = NumberValueCapture_Var numberValueCapture,
      ApiNumberValueCapture_Labels = NumberValueCapture_Labels numberValueCapture,
      ApiNumberValueCapture_Value = NumberValueCapture_Value numberValueCapture\<rparr>"

definition evaluationResultsToApi2 :: "Result \<Rightarrow> ApiNumberValueCapture ApiEvalResult" where
  "evaluationResultsToApi2 evalResult =
     (let apiEvalResult0 =
            \<lparr>ApiEvalResult_Instance = Result_Instance evalResult,
             ApiEvalResult_State = Result_State evalResult,
             ApiEvalResult_StateName = State_String (Result_State evalResult),
             ApiEvalResult_EvaluatedAt = Result_EvaluatedAt evalResult,
             ApiEvalResult_EvaluationDuration = Result_EvaluationDuration evalResult,
             ApiEvalResult_EvaluationString = Result_EvaluationString evalResult,
             ApiEvalResult_Values = None,
             ApiEvalResult_Error = None\<rparr>;
          apiEvalResult =
            (case Result_Values evalResult of
               None \<Rightarrow> apiEvalResult0
             | Some values \<Rightarrow>
                 apiEvalResult0\<lparr>ApiEvalResult_Values :=
                   Some (\<lambda>k. map_option valueNumberCaptureToApi (values k))\<rparr>)
      in case Result_Error evalResult of
        None \<Rightarrow> apiEvalResult
      | Some err \<Rightarrow>
         (let errorMetadata = Map.empty in
          case errors_As_QueryError err of
            Some (RefID, Err) \<Rightarrow>
              apiEvalResult\<lparr>ApiEvalResult_Error :=
                Some \<lparr>ApiEvalError_Type = QueryErrorType,
                      ApiEvalError_Message = Error_text Err,
                      ApiEvalError_Metadata = errorMetadata(EvaluationErrorRefIdKey \<mapsto> RefID)\<rparr>\<rparr>
          | None \<Rightarrow>
              apiEvalResult\<lparr>ApiEvalResult_Error :=
                Some \<lparr>ApiEvalError_Type = OtherErrorType,
                      ApiEvalError_Message = Error_text err,
                      ApiEvalError_Metadata = errorMetadata\<rparr>\<rparr>))"

definition apiToEvaluationResult2 :: "ApiNumberValueCapture ApiEvalResult \<Rightarrow> Result" where
  "apiToEvaluationResult2 apiEvalResult =
     (let evalResult =
            \<lparr>Result_Instance = ApiEvalResult_Instance apiEvalResult,
             Result_State = ApiEvalResult_State apiEvalResult,
             Result_Error = None,
             Result_EvaluatedAt = ApiEvalResult_EvaluatedAt apiEvalResult,
             Result_EvaluationDuration = ApiEvalResult_EvaluationDuration apiEvalResult,
             Result_EvaluationString = [],
             Result_Values = None\<rparr>
      in case ApiEvalResult_Values apiEvalResult of
        None \<Rightarrow> evalResult
      | Some values \<Rightarrow>
          evalResult\<lparr>Result_Values :=
            Some (\<lambda>k. map_option apiToNumberValueCapture (values k))\<rparr>)"

definition apiRuleToDbAlertRule :: "ApiAlertRule \<Rightarrow> AlertRule" where
  "apiRuleToDbAlertRule api =
     \<lparr>AlertRule_ID = ApiAlertRule_ID api,
      AlertRule_OrgID = ApiAlertRule_OrgID api,
      AlertRule_Title = ApiAlertRule_Title api,
      AlertRule_Condition = ApiAlertRule_Condition api,
      AlertRule_Data = ApiAlertRule_Data api,
      AlertRule_Updated = ApiAlertRule_Updated api,
      AlertRule_IntervalSeconds = ApiAlertRule_IntervalSeconds api,
      AlertRule_Version = ApiAlertRule_Version api,
      AlertRule_UID = ApiAlertRule_UID api,
      AlertRule_NamespaceUID = ApiAlertRule_NamespaceUID api,
      AlertRule_DashboardUID = ApiAlertRule_DashboardUID api,
      AlertRule_PanelID = ApiAlertRule_PanelID api,
      AlertRule_RuleGroup = ApiAlertRule_RuleGroup api,
      AlertRule_NoDataState = ApiAlertRule_NoDataState api,
      AlertRule_ExecErrState = ApiAlertRule_ExecErrState api,
      AlertRule_For = ApiAlertRule_For api,
      AlertRule_Annotations = ApiAlertRule_Annotations api,
      AlertRule_Labels = ApiAlertRule_Labels api\<rparr>"

subsection \<open>NewLogzioAlertingService\<close>

text \<open>
  \<open>url.Parse\<close> belongs to the Go library: it is the parameter \<open>url_Parse\<close>. The logger the
  constructor is given writes to the log of the world.
\<close>

definition NewLogzioAlertingService ::
  "(string \<Rightarrow> error + URL) \<Rightarrow> handle \<Rightarrow> Cfg \<Rightarrow>
   (Condition \<Rightarrow> Time \<Rightarrow> handle \<Rightarrow> 'x \<Rightarrow> (error + Result list) \<times> 'x) \<Rightarrow> (nat \<Rightarrow> Time) \<Rightarrow> handle \<Rightarrow>
   (AlertRule \<Rightarrow> Result list \<Rightarrow> 'x \<Rightarrow> state_State list \<times> 'x) \<Rightarrow>
   (int \<Rightarrow> 'x \<Rightarrow> error + 'x Alertmanager) \<Rightarrow>
   (SaveAlertInstanceCommand \<Rightarrow> 'x \<Rightarrow> error option \<times> 'x) \<Rightarrow> handle \<Rightarrow>
   'x api_world \<Rightarrow> 'x LogzioAlertingService \<times> 'x api_world" where
  "NewLogzioAlertingService url_Parse Proxy Cfg' Evaluator' Clock' ExpressionService'
       StateManager' MultiOrgAlertmanager' InstanceStore' logger w =
     (let parsed = url_Parse (AppURL Cfg');
          appUrl = (case parsed of Inl err \<Rightarrow> None | Inr u \<Rightarrow> Some u);
          w1 = (case parsed of
                  Inl err \<Rightarrow>
                    api_log_to LvlError ''Failed to parse application URL. Continue without it.''
                      [(''error'', VErr err)] w
                | Inr u \<Rightarrow> w)
      in (\<lparr>AlertingProxy = Proxy, Cfg = Cfg', AppUrl = appUrl, Evaluator = Evaluator',
           Clock = Clock', ExpressionService = ExpressionService', StateManager = StateManager',
           MultiOrgAlertmanager = MultiOrgAlertmanager', InstanceStore = InstanceStore',
           Log = logger\<rparr>, w1))"

subsection \<open>saveAlertStates\<close>

text \<open>The body of the loop, for one state, and the loop over the states.\<close>

fun saveAlertStates_range ::
  "'x LogzioAlertingService \<Rightarrow> state_State list \<Rightarrow> 'x api_world \<Rightarrow> 'x api_world" where
  "saveAlertStates_range srv [] w = w"
| "saveAlertStates_range srv (s # states) w =
     (let cmd = \<lparr>Save_RuleOrgID = State_OrgID s,
                 Save_RuleUID = State_AlertRuleUID s,
                 Save_Labels = State_Labels s,
                 Save_State = State_String (State_State s),
                 Save_LastEvalTime = State_LastEvaluationTime s,
                 Save_CurrentStateSince = State_StartsAt s,
                 Save_CurrentStateEnd = State_EndsAt s\<rparr>;
          saved = InstanceStore srv cmd (api_ext w);
          w1 = called (SaveAlertInstanceCall cmd) (w\<lparr>api_ext := snd saved\<rparr>);
          w2 = (case fst saved of
                  None \<Rightarrow> w1
                | Some err \<Rightarrow>
                    api_log_to LvlError ''failed to save alert state''
                      [(''uid'', VStr (State_AlertRuleUID s)), (''orgId'', VInt (State_OrgID s)),
                       (''labels'', VLabels (State_Labels s)),
                       (''state'', VStr (State_String (State_State s))),
                       (''msg'', VStr (Error_text err))] w1)
      in saveAlertStates_range srv states w2)"

definition saveAlertStates ::
  "'x LogzioAlertingService \<Rightarrow> state_State list \<Rightarrow> 'x api_world \<Rightarrow> 'x api_world" where
  "saveAlertStates srv states w =
     saveAlertStates_range srv states
       (api_log_to LvlDebug ''saving alert states'' [(''count'', VInt (int (length states)))] w)"

subsection \<open>RouteEvaluateAlert and RouteProcessAlert\<close>


text \<open>
  \<open>schedule.FromAlertStateToPostableAlerts\<close> is declared outside the files at hand: it is
  the parameter \<open>toPostable\<close>, which reads the State Manager in the state of the
  collaborators.
\<close>

definition RouteProcessAlert ::
  "(state_State list \<Rightarrow> 'x \<Rightarrow> URL option \<Rightarrow> PostableAlerts) \<Rightarrow> 'x LogzioAlertingService \<Rightarrow>
   NumberValueCapture AlertProcessRequest \<Rightarrow> 'x api_world \<Rightarrow>
   PostableAlerts Response \<times> 'x api_world" where
  "RouteProcessAlert toPostable srv request w =
     (let alertRule = apiRuleToDbAlertRule (ProcessRequest_AlertRule request);
          evalResults = map apiToEvaluationResult (ProcessRequest_EvaluationResults request);
          processed = StateManager srv alertRule evalResults (api_ext w);
          processedStates = fst processed;
          w1 = called (ProcessEvalResultsCall alertRule evalResults)
                 (w\<lparr>api_ext := snd processed\<rparr>);
          w2 = saveAlertStates srv processedStates w1;
          alerts = toPostable processedStates (api_ext w2) (AppUrl srv);
          w3 = called (FromAlertStateToPostableAlertsCall processedStates (AppUrl srv)) w2;
          w4 = called (AlertmanagerForCall (AlertRule_OrgID alertRule)) w3
      in case MultiOrgAlertmanager srv (AlertRule_OrgID alertRule) (api_ext w4) of
        Inr n \<Rightarrow>
         (let w5 = api_log_to LvlInfo ''Pushing alerts to alert manager'' [] w4;
              put = n alerts (api_ext w5);
              w6 = called (PutAlertsCall alerts) (w5\<lparr>api_ext := snd put\<rparr>)
          in case fst put of
            Some err \<Rightarrow>
              (response_Error http_StatusInternalServerError ''Failed to process alert'' err,
               api_log_to LvlError ''failed to put alerts in the local notifier''
                 [(''count'', VInt (int (length alerts))), (''err'', VErr err),
                  (''ruleId'', VInt (AlertRule_ID alertRule))] w6)
          | None \<Rightarrow> (response_JSONStreaming http_StatusOK alerts, w6))
      | Inl err \<Rightarrow>
          if errors_Is err ErrNoAlertmanagerForOrg
          then (response_Error http_StatusBadRequest ''Alert manager for organization not found''
                  err,
                api_log_to LvlInfo ''local notifier was not found''
                  [(''orgId'', VInt (AlertRule_OrgID alertRule))] w4)
          else (response_Error http_StatusInternalServerError ''Failed to process alert'' err,
                api_log_to LvlError ''local notifier is not available''
                  [(''err'', VErr err), (''orgId'', VInt (AlertRule_OrgID alertRule))] w4))"

section \<open>Vocabulary of the properties\<close>

subsection \<open>The engine\<close>











subsection \<open>The service\<close>

text \<open>The command \<open>saveAlertStates\<close> issues for a state.\<close>

definition save_command :: "state_State \<Rightarrow> SaveAlertInstanceCommand" where
  "save_command s =
     \<lparr>Save_RuleOrgID = State_OrgID s,
      Save_RuleUID = State_AlertRuleUID s,
      Save_Labels = State_Labels s,
      Save_State = State_String (State_State s),
      Save_LastEvalTime = State_LastEvaluationTime s,
      Save_CurrentStateSince = State_StartsAt s,
      Save_CurrentStateEnd = State_EndsAt s\<rparr>"

text \<open>
  The states of a batch whose save fails, each with its error, when the store is sent the
  command of every state of the batch in turn.
\<close>

fun save_failures ::
  "(SaveAlertInstanceCommand \<Rightarrow> 'x \<Rightarrow> error option \<times> 'x) \<Rightarrow> state_State list \<Rightarrow> 'x \<Rightarrow>
   (state_State \<times> error) list" where
  "save_failures store [] x = []"
| "save_failures store (s # states) x =
     (case fst (store (save_command s) x) of
        None \<Rightarrow> save_failures store states (snd (store (save_command s) x))
      | Some err \<Rightarrow> (s, err) # save_failures store states (snd (store (save_command s) x)))"

text \<open>The log line of a failed save.\<close>

definition save_failure_entry :: "state_State \<times> error \<Rightarrow> log_entry" where
  "save_failure_entry f =
     (LvlError, ''failed to save alert state'',
      [(''uid'', VStr (State_AlertRuleUID (fst f))), (''orgId'', VInt (State_OrgID (fst f))),
       (''labels'', VLabels (State_Labels (fst f))),
       (''state'', VStr (State_String (State_State (fst f)))),
       (''msg'', VStr (Error_text (snd f)))])"

text \<open>The commands among the calls, in order.\<close>

fun saved_commands :: "call list \<Rightarrow> SaveAlertInstanceCommand list" where
  "saved_commands [] = []"
| "saved_commands (SaveAlertInstanceCall cmd # cs) = cmd # saved_commands cs"
| "saved_commands (c # cs) = saved_commands cs"

text \<open>
  A service over a store that keeps the commands it is sent: the evaluator fails, the State
  Manager gives one state per result, and no organization has an alertmanager.
\<close>

definition example_service :: "SaveAlertInstanceCommand list LogzioAlertingService" where
  "example_service =
     \<lparr>AlertingProxy = 0, Cfg = \<lparr>AppURL = ''http://localhost:3000/''\<rparr>,
      AppUrl = Some ''http://localhost:3000/'',
      Evaluator = (\<lambda>c t h x. (Inl (errorString ''datasource unreachable''), x)),
      Clock = (\<lambda>n. int n),
      ExpressionService = 0,
      StateManager = (\<lambda>rule results x.
        (map (\<lambda>r. \<lparr>State_OrgID = AlertRule_OrgID rule, State_AlertRuleUID = AlertRule_UID rule,
                     State_Labels = Result_Instance r, State_State = Result_State r,
                     State_LastEvaluationTime = Result_EvaluatedAt r,
                     State_StartsAt = Result_EvaluatedAt r,
                     State_EndsAt = Result_EvaluatedAt r\<rparr>) results, x)),
      MultiOrgAlertmanager = (\<lambda>org x. Inl ErrNoAlertmanagerForOrg),
      InstanceStore = (\<lambda>cmd x. (None, x @ [cmd])),
      Log = 0\<rparr>"

definition example_api_rule :: ApiAlertRule where
  "example_api_rule =
     \<lparr>ApiAlertRule_ID = 5, ApiAlertRule_OrgID = 1, ApiAlertRule_Title = ''cpu'',
      ApiAlertRule_Condition = ''A'', ApiAlertRule_Data = [], ApiAlertRule_Updated = 0,
      ApiAlertRule_IntervalSeconds = 60, ApiAlertRule_Version = 1, ApiAlertRule_UID = ''u1'',
      ApiAlertRule_NamespaceUID = ''n1'', ApiAlertRule_DashboardUID = None,
      ApiAlertRule_PanelID = None, ApiAlertRule_RuleGroup = ''g'',
      ApiAlertRule_NoDataState = ''NoData'', ApiAlertRule_ExecErrState = ''Alerting'',
      ApiAlertRule_For = 0, ApiAlertRule_Annotations = Map.empty,
      ApiAlertRule_Labels = Map.empty\<rparr>"

definition example_process_request :: "NumberValueCapture AlertProcessRequest" where
  "example_process_request =
     \<lparr>ProcessRequest_AlertRule = example_api_rule,
      ProcessRequest_EvaluationResults =
        [\<lparr>ApiEvalResult_Instance = Map.empty, ApiEvalResult_State = Alerting,
          ApiEvalResult_StateName = ''Alerting'', ApiEvalResult_EvaluatedAt = 100,
          ApiEvalResult_EvaluationDuration = 3, ApiEvalResult_EvaluationString = [],
          ApiEvalResult_Values = None, ApiEvalResult_Error = None\<rparr>]\<rparr>"


definition example_toPostable ::
  "state_State list \<Rightarrow> SaveAlertInstanceCommand list \<Rightarrow> URL option \<Rightarrow> PostableAlerts" where
  "example_toPostable states x appURL =
     map (\<lambda>s. \<lparr>PostableAlert_Labels = State_Labels s, PostableAlert_Annotations = Map.empty,
                PostableAlert_StartsAt = State_StartsAt s, PostableAlert_EndsAt = State_EndsAt s,
                PostableAlert_GeneratorURL = (case appURL of None \<Rightarrow> [] | Some u \<Rightarrow> u)\<rparr>) states"

definition example_api_world :: "SaveAlertInstanceCommand list api_world" where
  "example_api_world = \<lparr>api_log = [], api_calls = [], api_clock = 0, api_ext = []\<rparr>"

text \<open>A registry in which every organization has an alertmanager that accepts the alerts.\<close>

definition example_alertmanagers :: "int \<Rightarrow> 'x \<Rightarrow> error + 'x Alertmanager" where
  "example_alertmanagers org x = Inr (\<lambda>alerts x'. (None, x'))"

text \<open>A parser that rejects a URL with no scheme before the colon.\<close>

definition example_url_Parse :: "string \<Rightarrow> error + URL" where
  "example_url_Parse s =
     (if s = [] \<or> hd s = CHR '':'' then Inl (errorString ''missing protocol scheme'')
      else Inr s)"

section \<open>Properties\<close>


subsection \<open>The engine: what processJob and handleRule do\<close>


















subsection \<open>The offset of the job\<close>




subsection \<open>The running flag of the job\<close>





subsection \<open>The two timeout contexts\<close>



subsection \<open>The converters\<close>

lemma apiToNumberValueCapture_valueNumberCaptureToApi:
  "apiToNumberValueCapture (valueNumberCaptureToApi v) = v"
  by (simp add: apiToNumberValueCapture_def valueNumberCaptureToApi_def)

lemma evaluationResultsToApi_fields:
  "ApiEvalResult_Instance (evaluationResultsToApi r) = Result_Instance r"
  "ApiEvalResult_State (evaluationResultsToApi r) = Result_State r"
  "ApiEvalResult_EvaluatedAt (evaluationResultsToApi r) = Result_EvaluatedAt r"
  "ApiEvalResult_EvaluationDuration (evaluationResultsToApi r) = Result_EvaluationDuration r"
  "ApiEvalResult_Values (evaluationResultsToApi r) = Result_Values r"
  by (simp_all add: evaluationResultsToApi_def Let_def split: option.split prod.split)

lemma evaluationResultsToApi2_fields:
  "ApiEvalResult_Instance (evaluationResultsToApi2 r) = Result_Instance r"
  "ApiEvalResult_State (evaluationResultsToApi2 r) = Result_State r"
  "ApiEvalResult_EvaluatedAt (evaluationResultsToApi2 r) = Result_EvaluatedAt r"
  "ApiEvalResult_EvaluationDuration (evaluationResultsToApi2 r) = Result_EvaluationDuration r"
  "ApiEvalResult_Values (evaluationResultsToApi2 r) =
     map_option (\<lambda>values k. map_option valueNumberCaptureToApi (values k)) (Result_Values r)"
  by (simp_all add: evaluationResultsToApi2_def Let_def split: option.split prod.split)

lemma map_option_roundtrip:
  "map_option apiToNumberValueCapture (map_option valueNumberCaptureToApi x) = x"
  by (cases x) (simp_all add: apiToNumberValueCapture_valueNumberCaptureToApi)

text \<open>
  C3. For every evaluation result, converting it to its API representation and back gives
  the result with its error and its evaluation string cleared: the fields \<open>Instance\<close>,
  \<open>State\<close>, \<open>EvaluatedAt\<close>, \<open>EvaluationDuration\<close> and \<open>Values\<close> are those of the result.
  This holds for the converters of \<open>logzio_alerting.go\<close>, which copy the captured values, and
  for those of the later copy of the file, which convert them one by one.
\<close>

theorem evaluationResult_roundtrip:
  "apiToEvaluationResult (evaluationResultsToApi r) =
     r\<lparr>Result_Error := None, Result_EvaluationString := []\<rparr> \<and>
   apiToEvaluationResult2 (evaluationResultsToApi2 r) =
     r\<lparr>Result_Error := None, Result_EvaluationString := []\<rparr> \<and>
   Result_Instance (apiToEvaluationResult (evaluationResultsToApi r)) = Result_Instance r \<and>
   Result_State (apiToEvaluationResult (evaluationResultsToApi r)) = Result_State r \<and>
   Result_EvaluatedAt (apiToEvaluationResult (evaluationResultsToApi r)) = Result_EvaluatedAt r \<and>
   Result_EvaluationDuration (apiToEvaluationResult (evaluationResultsToApi r)) =
     Result_EvaluationDuration r \<and>
   Result_Values (apiToEvaluationResult (evaluationResultsToApi r)) = Result_Values r \<and>
   Result_Instance (apiToEvaluationResult2 (evaluationResultsToApi2 r)) = Result_Instance r \<and>
   Result_State (apiToEvaluationResult2 (evaluationResultsToApi2 r)) = Result_State r \<and>
   Result_EvaluatedAt (apiToEvaluationResult2 (evaluationResultsToApi2 r)) =
     Result_EvaluatedAt r \<and>
   Result_EvaluationDuration (apiToEvaluationResult2 (evaluationResultsToApi2 r)) =
     Result_EvaluationDuration r \<and>
   Result_Values (apiToEvaluationResult2 (evaluationResultsToApi2 r)) = Result_Values r"
proof -
  have one: "apiToEvaluationResult (evaluationResultsToApi r) =
     r\<lparr>Result_Error := None, Result_EvaluationString := []\<rparr>"
    by (simp add: apiToEvaluationResult_def evaluationResultsToApi_fields)
  have two: "apiToEvaluationResult2 (evaluationResultsToApi2 r) =
     r\<lparr>Result_Error := None, Result_EvaluationString := []\<rparr>"
    by (cases "Result_Values r")
       (simp_all add: apiToEvaluationResult2_def evaluationResultsToApi2_fields Let_def
          map_option_roundtrip)
  show ?thesis unfolding one two by simp
qed


subsection \<open>saveAlertStates\<close>

lemma saveAlertStates_range_body:
  "saveAlertStates_range srv (s # states) w =
     saveAlertStates_range srv states
       ((case fst (InstanceStore srv (save_command s) (api_ext w)) of
           None \<Rightarrow> id
         | Some err \<Rightarrow> api_log_to LvlError (fst (snd (save_failure_entry (s, err))))
                        (snd (snd (save_failure_entry (s, err)))))
        (called (SaveAlertInstanceCall (save_command s))
           (w\<lparr>api_ext := snd (InstanceStore srv (save_command s) (api_ext w))\<rparr>)))"
  by (cases "fst (InstanceStore srv (save_command s) (api_ext w))")
     (simp_all add: Let_def save_command_def save_failure_entry_def)

lemma api_fields_simps:
  "api_calls (api_log_to l m k w) = api_calls w"
  "api_ext (api_log_to l m k w) = api_ext w"
  "api_log (api_log_to l m k w) = api_log w @ [(l, m, k)]"
  "api_clock (api_log_to l m k w) = api_clock w"
  "api_calls (called c w) = api_calls w @ [c]"
  "api_ext (called c w) = api_ext w"
  "api_log (called c w) = api_log w"
  "api_clock (called c w) = api_clock w"
  by (simp_all add: api_log_to_def called_def)

lemma saveAlertStates_range_calls:
  "api_calls (saveAlertStates_range srv states w) =
     api_calls w @ map (\<lambda>s. SaveAlertInstanceCall (save_command s)) states"
proof (induction states arbitrary: w)
  case Nil
  then show ?case by simp
next
  case (Cons s states)
  show ?case
    unfolding saveAlertStates_range_body Cons.IH
    by (cases "fst (InstanceStore srv (save_command s) (api_ext w))")
       (simp_all add: api_fields_simps)
qed

lemma saveAlertStates_range_ext:
  "api_ext (saveAlertStates_range srv states w) =
     foldl (\<lambda>x s. snd (InstanceStore srv (save_command s) x)) (api_ext w) states"
proof (induction states arbitrary: w)
  case Nil
  then show ?case by simp
next
  case (Cons s states)
  show ?case
    unfolding saveAlertStates_range_body Cons.IH
    by (cases "fst (InstanceStore srv (save_command s) (api_ext w))")
       (simp_all add: api_fields_simps)
qed

lemma saveAlertStates_range_log:
  "api_log (saveAlertStates_range srv states w) =
     api_log w @ map save_failure_entry (save_failures (InstanceStore srv) states (api_ext w))"
proof (induction states arbitrary: w)
  case Nil
  then show ?case by simp
next
  case (Cons s states)
  show ?case
    unfolding saveAlertStates_range_body Cons.IH
    by (cases "fst (InstanceStore srv (save_command s) (api_ext w))")
       (simp_all add: api_fields_simps save_failure_entry_def)
qed

lemma saveAlertStates_range_clock:
  "api_clock (saveAlertStates_range srv states w) = api_clock w"
proof (induction states arbitrary: w)
  case Nil
  then show ?case by simp
next
  case (Cons s states)
  show ?case
    unfolding saveAlertStates_range_body Cons.IH
    by (cases "fst (InstanceStore srv (save_command s) (api_ext w))")
       (simp_all add: api_fields_simps)
qed

lemma saved_commands_append:
  "saved_commands (xs @ ys) = saved_commands xs @ saved_commands ys"
  by (induction xs rule: saved_commands.induct) simp_all

lemma saved_commands_map:
  "saved_commands (map (\<lambda>s. SaveAlertInstanceCall (f s)) states) = map f states"
  by (induction states) simp_all

text \<open>
  C7. For every batch of states and every store, whatever saves fail, \<open>saveAlertStates\<close>
  calls \<open>SaveAlertInstance\<close> once per state of the batch, in order; the store ends as the
  commands of all the states leave it; and the log gains the line of the batch and one
  error line per state whose save failed, in order. \<open>saveAlertStates\<close> returns no error.
\<close>

theorem saveAlertStates_saves_every_state:
  "api_calls (saveAlertStates srv states w) =
     api_calls w @ map (\<lambda>s. SaveAlertInstanceCall (save_command s)) states \<and>
   length (saved_commands (api_calls (saveAlertStates srv states w))) =
     length (saved_commands (api_calls w)) + length states \<and>
   api_ext (saveAlertStates srv states w) =
     foldl (\<lambda>x s. snd (InstanceStore srv (save_command s) x)) (api_ext w) states \<and>
   api_log (saveAlertStates srv states w) =
     api_log w @
     [(LvlDebug, ''saving alert states'', [(''count'', VInt (int (length states)))])] @
     map save_failure_entry (save_failures (InstanceStore srv) states (api_ext w))"
  by (simp add: saveAlertStates_def saveAlertStates_range_calls saveAlertStates_range_ext
        saveAlertStates_range_log api_fields_simps saved_commands_append saved_commands_map)


subsection \<open>RouteProcessAlert\<close>

lemma saveAlertStates_fields:
  "api_calls (saveAlertStates srv states w) =
     api_calls w @ map (\<lambda>s. SaveAlertInstanceCall (save_command s)) states"
  "api_ext (saveAlertStates srv states w) =
     foldl (\<lambda>x s. snd (InstanceStore srv (save_command s) x)) (api_ext w) states"
  by (simp_all add: saveAlertStates_def saveAlertStates_range_calls saveAlertStates_range_ext
        api_fields_simps)

lemma api_ext_update: "api_ext (w\<lparr>api_ext := x\<rparr>) = x" "api_calls (w\<lparr>api_ext := x\<rparr>) = api_calls w"
  by simp_all

lemma RouteProcessAlert_calls:
  fixes srv :: "'x LogzioAlertingService"
  shows "api_calls (snd (RouteProcessAlert toPostable srv request w)) =
     (let alertRule = apiRuleToDbAlertRule (ProcessRequest_AlertRule request);
          evalResults = map apiToEvaluationResult (ProcessRequest_EvaluationResults request);
          processed = StateManager srv alertRule evalResults (api_ext w);
          x = foldl (\<lambda>x s. snd (InstanceStore srv (save_command s) x)) (snd processed) (fst processed)
      in api_calls w @ [ProcessEvalResultsCall alertRule evalResults] @
         map (\<lambda>s. SaveAlertInstanceCall (save_command s)) (fst processed) @
         [FromAlertStateToPostableAlertsCall (fst processed) (AppUrl srv),
          AlertmanagerForCall (AlertRule_OrgID alertRule)] @
         (case MultiOrgAlertmanager srv (AlertRule_OrgID alertRule) x of
            Inl err \<Rightarrow> []
          | Inr n \<Rightarrow> [PutAlertsCall (toPostable (fst processed) x (AppUrl srv))]))"
proof -
  let ?alertRule = "apiRuleToDbAlertRule (ProcessRequest_AlertRule request)"
  let ?evalResults = "map apiToEvaluationResult (ProcessRequest_EvaluationResults request)"
  let ?processed = "StateManager srv ?alertRule ?evalResults (api_ext w)"
  let ?x = "foldl (\<lambda>x s. snd (InstanceStore srv (save_command s) x)) (snd ?processed) (fst ?processed)"
  show ?thesis
  proof (cases "MultiOrgAlertmanager srv (AlertRule_OrgID ?alertRule) ?x")
    case (Inl err)
    then show ?thesis
      unfolding RouteProcessAlert_def Let_def
      by (simp add: api_fields_simps saveAlertStates_fields)
  next
    case (Inr n)
    then show ?thesis
      unfolding RouteProcessAlert_def Let_def
      by (cases "fst (n (toPostable (fst ?processed) ?x (AppUrl srv)) ?x)")
         (simp_all add: api_fields_simps saveAlertStates_fields)
  qed
qed


lemma RouteProcessAlert_alerts:
  assumes "fst (RouteProcessAlert toPostable srv request w) = response_JSONStreaming status alerts"
  shows "\<exists>states x. alerts = toPostable states x (AppUrl srv)"
proof -
  let ?alertRule = "apiRuleToDbAlertRule (ProcessRequest_AlertRule request)"
  let ?evalResults = "map apiToEvaluationResult (ProcessRequest_EvaluationResults request)"
  let ?processed = "StateManager srv ?alertRule ?evalResults (api_ext w)"
  let ?x = "foldl (\<lambda>x s. snd (InstanceStore srv (save_command s) x)) (snd ?processed)
              (fst ?processed)"
  show ?thesis
  proof (cases "MultiOrgAlertmanager srv (AlertRule_OrgID ?alertRule) ?x")
    case (Inl err)
    with assms show ?thesis
      unfolding RouteProcessAlert_def Let_def
      by (simp add: api_fields_simps saveAlertStates_fields split: if_splits)
  next
    case (Inr n)
    with assms show ?thesis
      unfolding RouteProcessAlert_def Let_def
      by (cases "fst (n (toPostable (fst ?processed) ?x (AppUrl srv)) ?x)")
         (auto simp add: api_fields_simps saveAlertStates_fields)
  qed
qed



lemma example_processed:
  "StateManager example_service
     (apiRuleToDbAlertRule (ProcessRequest_AlertRule example_process_request))
     (map apiToEvaluationResult (ProcessRequest_EvaluationResults example_process_request))
     (api_ext example_api_world) =
   ([\<lparr>State_OrgID = 1, State_AlertRuleUID = ''u1'', State_Labels = Map.empty,
      State_State = Alerting, State_LastEvaluationTime = 100, State_StartsAt = 100,
      State_EndsAt = 100\<rparr>], [])"
  by (simp add: example_service_def example_process_request_def example_api_rule_def
        example_api_world_def apiRuleToDbAlertRule_def apiToEvaluationResult_def)




subsection \<open>NewLogzioAlertingService\<close>

text \<open>
  C10. For every configuration whose \<open>AppURL\<close> does not parse, \<open>NewLogzioAlertingService\<close>
  still gives the service, with every collaborator as it was passed and \<open>AppUrl\<close> nil, and
  logs the parse error; it calls no collaborator. Every \<open>RouteProcessAlert\<close> of that service
  calls the conversion to postable alerts with the nil URL, and the alerts of every
  successful answer are those the conversion gives for it.
\<close>

theorem NewLogzioAlertingService_unparseable_AppURL:
  "url_Parse (AppURL cfg) = Inl err \<longrightarrow>
   (let made = NewLogzioAlertingService url_Parse proxy cfg ev clk es sm moa store lg w;
        srv = fst made
    in AppUrl srv = None \<and> Cfg srv = cfg \<and> AlertingProxy srv = proxy \<and> Evaluator srv = ev \<and>
       Clock srv = clk \<and> ExpressionService srv = es \<and> StateManager srv = sm \<and>
       MultiOrgAlertmanager srv = moa \<and> InstanceStore srv = store \<and> Log srv = lg \<and>
       snd made =
         api_log_to LvlError ''Failed to parse application URL. Continue without it.''
           [(''error'', VErr err)] w \<and>
       (\<forall>toPostable request w2. \<exists>pre post states.
          api_calls (snd (RouteProcessAlert toPostable srv request w2)) =
            pre @ FromAlertStateToPostableAlertsCall states None # post) \<and>
       (\<forall>toPostable request w2 status alerts.
          fst (RouteProcessAlert toPostable srv request w2) =
            response_JSONStreaming status alerts \<longrightarrow>
          (\<exists>states x. alerts = toPostable states x None)))"
proof
  assume p: "url_Parse (AppURL cfg) = Inl err"
  let ?made = "NewLogzioAlertingService url_Parse proxy cfg ev clk es sm moa store lg w"
  have f: "AppUrl (fst ?made) = None" "Cfg (fst ?made) = cfg" "AlertingProxy (fst ?made) = proxy"
    "Evaluator (fst ?made) = ev" "Clock (fst ?made) = clk" "ExpressionService (fst ?made) = es"
    "StateManager (fst ?made) = sm" "MultiOrgAlertmanager (fst ?made) = moa"
    "InstanceStore (fst ?made) = store" "Log (fst ?made) = lg"
    "snd ?made = api_log_to LvlError ''Failed to parse application URL. Continue without it.''
           [(''error'', VErr err)] w"
    using p by (simp_all add: NewLogzioAlertingService_def Let_def)
  have c: "\<exists>pre post states.
          api_calls (snd (RouteProcessAlert toPostable (fst ?made) request w2)) =
            pre @ FromAlertStateToPostableAlertsCall states None # post"
    for toPostable request w2
    unfolding RouteProcessAlert_calls Let_def f(1)
    by (metis append_Cons append_assoc)
  have a: "\<exists>states x. alerts = toPostable states x None"
    if "fst (RouteProcessAlert toPostable (fst ?made) request w2) =
            response_JSONStreaming status alerts"
    for toPostable request w2 status alerts
    using RouteProcessAlert_alerts[OF that] unfolding f(1) .
  show "let made = ?made; srv = fst made
    in AppUrl srv = None \<and> Cfg srv = cfg \<and> AlertingProxy srv = proxy \<and> Evaluator srv = ev \<and>
       Clock srv = clk \<and> ExpressionService srv = es \<and> StateManager srv = sm \<and>
       MultiOrgAlertmanager srv = moa \<and> InstanceStore srv = store \<and> Log srv = lg \<and>
       snd made =
         api_log_to LvlError ''Failed to parse application URL. Continue without it.''
           [(''error'', VErr err)] w \<and>
       (\<forall>toPostable request w2. \<exists>pre post states.
          api_calls (snd (RouteProcessAlert toPostable srv request w2)) =
            pre @ FromAlertStateToPostableAlertsCall states None # post) \<and>
       (\<forall>toPostable request w2 status alerts.
          fst (RouteProcessAlert toPostable srv request w2) =
            response_JSONStreaming status alerts \<longrightarrow>
          (\<exists>states x. alerts = toPostable states x None))"
    unfolding Let_def using f c a by blast
qed

text \<open>
  The theorem at the application URL \<open>:bad\<close>, for a service whose organizations all have an
  alertmanager: the request is answered with the alert converted under the nil URL.
\<close>

theorem NewLogzioAlertingService_unparseable_AppURL_witness:
  "example_url_Parse (AppURL \<lparr>AppURL = '':bad''\<rparr>) = Inl (errorString ''missing protocol scheme'') \<and>
   AppUrl (fst (NewLogzioAlertingService example_url_Parse 0 \<lparr>AppURL = '':bad''\<rparr>
     (Evaluator example_service) (Clock example_service) 0 (StateManager example_service)
     example_alertmanagers (InstanceStore example_service) 0 example_api_world)) = None \<and>
   fst (RouteProcessAlert example_toPostable
     (fst (NewLogzioAlertingService example_url_Parse 0 \<lparr>AppURL = '':bad''\<rparr>
       (Evaluator example_service) (Clock example_service) 0 (StateManager example_service)
       example_alertmanagers (InstanceStore example_service) 0 example_api_world))
     example_process_request example_api_world) =
     response_JSONStreaming 200
       [\<lparr>PostableAlert_Labels = Map.empty, PostableAlert_Annotations = Map.empty,
         PostableAlert_StartsAt = 100, PostableAlert_EndsAt = 100,
         PostableAlert_GeneratorURL = []\<rparr>] \<and>
   (\<exists>states x.
      [\<lparr>PostableAlert_Labels = Map.empty, PostableAlert_Annotations = Map.empty,
        PostableAlert_StartsAt = 100, PostableAlert_EndsAt = 100,
        PostableAlert_GeneratorURL = []\<rparr>] = example_toPostable states x None)"
proof -
  let ?made = "NewLogzioAlertingService example_url_Parse 0 \<lparr>AppURL = '':bad''\<rparr>
     (Evaluator example_service) (Clock example_service) 0 (StateManager example_service)
     (example_alertmanagers :: int \<Rightarrow> SaveAlertInstanceCommand list
         \<Rightarrow> error + SaveAlertInstanceCommand list Alertmanager)
     (InstanceStore example_service) 0 example_api_world"
  have p: "example_url_Parse (AppURL \<lparr>AppURL = '':bad''\<rparr>) =
      Inl (errorString ''missing protocol scheme'')"
    by (simp add: example_url_Parse_def)
  note t = NewLogzioAlertingService_unparseable_AppURL[of example_url_Parse
      "\<lparr>AppURL = '':bad''\<rparr>" "errorString ''missing protocol scheme''" 0
      "Evaluator example_service" "Clock example_service" 0 "StateManager example_service"
      "example_alertmanagers :: int \<Rightarrow> SaveAlertInstanceCommand list
         \<Rightarrow> error + SaveAlertInstanceCommand list Alertmanager"
      "InstanceStore example_service" 0 example_api_world]
  from t p have f: "AppUrl (fst ?made) = None"
    "StateManager (fst ?made) = StateManager example_service"
    "MultiOrgAlertmanager (fst ?made) = example_alertmanagers"
    "InstanceStore (fst ?made) = InstanceStore example_service"
    and a: "\<forall>toPostable request w2 status alerts.
          fst (RouteProcessAlert toPostable (fst ?made) request w2) =
            response_JSONStreaming status alerts \<longrightarrow>
          (\<exists>states x. alerts = toPostable states x None)"
    unfolding Let_def by blast+
  have r: "fst (RouteProcessAlert example_toPostable (fst ?made) example_process_request
       example_api_world) =
     response_JSONStreaming 200
       [\<lparr>PostableAlert_Labels = Map.empty, PostableAlert_Annotations = Map.empty,
         PostableAlert_StartsAt = 100, PostableAlert_EndsAt = 100,
         PostableAlert_GeneratorURL = []\<rparr>]"
    unfolding RouteProcessAlert_def Let_def f example_processed
    by (simp add: example_alertmanagers_def example_toPostable_def http_StatusOK_def)
  from a r have "\<exists>states x.
      [\<lparr>PostableAlert_Labels = Map.empty, PostableAlert_Annotations = Map.empty,
        PostableAlert_StartsAt = 100, PostableAlert_EndsAt = 100,
        PostableAlert_GeneratorURL = []\<rparr>] = example_toPostable states x None"
    by blast
  with p f(1) r show ?thesis by blast
qed

subsection \<open>Evaluation failures\<close>








end
